theory Spec2Isabelle
  imports Complex_Main "HOL-Library.AList" "HOL-Library.Word" "HOL-Library.Log_Nat"
begin

unbundle bit_operations_syntax

section \<open>The data model: values, types, frames\<close>

text \<open>
  The notebook \<^verbatim>\<open>credit_card_fraud_analysis.ipynb\<close> is a chain of PySpark DataFrame
  calls. A frame is modelled as its schema (column names with their types, in order)
  and its rows; a row is an association list from column names to values. Strings are
  byte sequences (UTF-8), as Spark's \<^verbatim>\<open>UTF8String\<close>.

  A double is modelled by the rational it denotes (or one of the three special values);
  the sign of zero is not kept. A timestamp is a count of microseconds since the epoch,
  as Spark stores it: it carries no time zone.
\<close>

datatype dtype = StringT | IntegerT | LongT | DoubleT | BooleanT | TimestampT
  | ArrayT dtype | StructT "(string \<times> dtype) list"

datatype dbl = Fin rat | PosInf | NegInf | NaN

datatype val = Null | Str string | IntV int | LongV int | DoubleV dbl | BoolV bool
  | TimestampV int | ArrayV "val list" | StructV "(string \<times> val) list"

text \<open>
  What can stop a run. \<open>AnalysisException\<close>: a column or field does not resolve.
  \<open>ArithmeticException\<close>: a timestamp leaves the 64-bit range. \<open>NotModelled\<close>: the
  call is well-formed for Spark, but on types or arguments that the notebook never uses
  (an implicit coercion, another hash width, another pattern) and that this model does
  not cover.
\<close>

datatype error = AnalysisException | ArithmeticException | NotModelled

type_synonym row = "(string \<times> val) list"

record dataframe =
  schema :: "(string \<times> dtype) list"
  rows :: "row list"

text \<open>
  A \<^verbatim>\<open>Column\<close> expression: its type against a schema (Spark's analysis, done when
  the expression is attached to a frame) and its value on a row.
\<close>

record column =
  ctype :: "(string \<times> dtype) list \<Rightarrow> error + dtype"
  ceval :: "row \<Rightarrow> error + val"

text \<open>
  The parts of the engine that no source file of the repository contains and that this
  development does not re-implement: Jackson's reading of a JSON object, Spark's parser
  of timestamp strings (which depends on the session time zone), and the time-zone
  database. They are parameters of the model.

  \<open>read_object\<close> is asked only about a text whose first token opens an object. It
  answers \<open>None\<close> when the reader raises further on in the text, and otherwise the
  object read against a schema of string fields, as a map from each field that is
  present and not \<^verbatim>\<open>null\<close> to its text. \<open>zone_offset\<close> gives the seconds east of
  UTC of a zone at an epoch second.
\<close>

record engine =
  read_object :: "string \<Rightarrow> (string \<Rightarrow> string option) option"
  string_to_timestamp :: "string \<Rightarrow> int option"
  zone_offset :: "string \<Rightarrow> int \<Rightarrow> int"

section \<open>Frame operations\<close>

fun traverse :: "('a \<Rightarrow> error + 'b) \<Rightarrow> 'a list \<Rightarrow> error + 'b list" where
  "traverse f [] = Inr []"
| "traverse f (x # xs) =
     (case f x of
        Inl e \<Rightarrow> Inl e
      | Inr y \<Rightarrow> (case traverse f xs of Inl e \<Rightarrow> Inl e | Inr ys \<Rightarrow> Inr (y # ys)))"

definition then_do :: "error + 'a \<Rightarrow> ('a \<Rightarrow> error + 'b) \<Rightarrow> error + 'b" where
  "then_do m f = (case m of Inl e \<Rightarrow> Inl e | Inr x \<Rightarrow> f x)"

text \<open>
  \<^verbatim>\<open>df.withColumn(name, c)\<close>: the column is added at the end, or replaces the column
  of that name where it stands. Names are compared exactly.
\<close>

definition withColumn :: "string \<Rightarrow> column \<Rightarrow> dataframe \<Rightarrow> error + dataframe" where
  "withColumn name c df =
     (case ctype c (schema df) of
        Inl e \<Rightarrow> Inl e
      | Inr t \<Rightarrow>
          (case traverse (\<lambda>r. case ceval c r of
                                 Inl e \<Rightarrow> Inl e
                               | Inr v \<Rightarrow> Inr (AList.update name v r)) (rows df) of
             Inl e \<Rightarrow> Inl e
           | Inr rs \<Rightarrow> Inr \<lparr>schema = AList.update name t (schema df), rows = rs\<rparr>))"

fun withColumns :: "(string \<times> column) list \<Rightarrow> dataframe \<Rightarrow> error + dataframe" where
  "withColumns [] df = Inr df"
| "withColumns ((name, c) # cs) df = then_do (withColumn name c df) (withColumns cs)"

text \<open>\<^verbatim>\<open>df.drop(names)\<close>: a name that is not a column is ignored.\<close>

definition drop_row :: "string list \<Rightarrow> (string \<times> 'a) list \<Rightarrow> (string \<times> 'a) list" where
  "drop_row names r = filter (\<lambda>p. fst p \<notin> set names) r"

definition drop_cols :: "string list \<Rightarrow> dataframe \<Rightarrow> dataframe" where
  "drop_cols names df =
     \<lparr>schema = drop_row names (schema df), rows = map (drop_row names) (rows df)\<rparr>"

section \<open>Column expressions\<close>

text \<open>
  Splitting at every character that satisfies \<open>p\<close>, keeping empty pieces, also at the
  end: Java's \<^verbatim>\<open>String.split(regex, -1)\<close> for a pattern that matches exactly one
  such character.
\<close>

fun split_on :: "(char \<Rightarrow> bool) \<Rightarrow> string \<Rightarrow> string list" where
  "split_on p [] = [[]]"
| "split_on p (c # cs) =
     (if p c then [] # split_on p cs
      else (case split_on p cs of [] \<Rightarrow> [[c]] | w # ws \<Rightarrow> (c # w) # ws))"

fun field_type :: "string list \<Rightarrow> dtype \<Rightarrow> error + dtype" where
  "field_type [] t = Inr t"
| "field_type (f # fs) (StructT flds) =
     (case map_of flds f of None \<Rightarrow> Inl AnalysisException | Some t \<Rightarrow> field_type fs t)"
| "field_type (f # fs) _ = Inl AnalysisException"

fun get_path :: "string list \<Rightarrow> val \<Rightarrow> val" where
  "get_path [] v = v"
| "get_path (f # fs) (StructV kvs) =
     (case map_of kvs f of None \<Rightarrow> Null | Some v \<Rightarrow> get_path fs v)"
| "get_path (f # fs) _ = Null"

text \<open>The value of a column in a row; a row without the column reads null.\<close>

definition lookup :: "row \<Rightarrow> string \<Rightarrow> val" where
  "lookup r name = (case map_of r name of None \<Rightarrow> Null | Some v \<Rightarrow> v)"

text \<open>
  \<^verbatim>\<open>col("a.b")\<close>: column \<open>a\<close>, then field \<open>b\<close> of the struct it holds. A field of
  a null struct is null.
\<close>

definition col :: "string \<Rightarrow> column" where
  "col name =
     (case split_on (\<lambda>c. c = CHR ''.'') name of
        [] \<Rightarrow> \<lparr>ctype = (\<lambda>_. Inl AnalysisException), ceval = (\<lambda>_. Inl AnalysisException)\<rparr>
      | base # path \<Rightarrow>
          \<lparr>ctype = (\<lambda>sch. case map_of sch base of
                             None \<Rightarrow> Inl AnalysisException
                           | Some t \<Rightarrow> field_type path t),
           ceval = (\<lambda>r. Inr (get_path path (lookup r base)))\<rparr>)"

text \<open>
  The only pattern of the notebook is the bracket expression \<^verbatim>\<open>[,@/]\<close>: it matches
  one character out of those between the brackets, which stand for themselves. Other
  patterns are not modelled.
\<close>

definition bracket_class :: "string \<Rightarrow> string option" where
  "bracket_class pat =
     (case pat of
        [] \<Rightarrow> None
      | c # cs \<Rightarrow>
          (if c = CHR ''['' \<and> cs \<noteq> [] \<and> last cs = CHR '']'' \<and> butlast cs \<noteq> []
              \<and> list_all (\<lambda>d. d \<notin> set ''^-[]&'' \<and> d \<noteq> CHR 0x5C) (butlast cs)
           then Some (butlast cs) else None))"

text \<open>\<^verbatim>\<open>split(c, pattern)\<close> on a string column; null stays null.\<close>

definition split_value :: "string \<Rightarrow> val \<Rightarrow> val" where
  "split_value ds v =
     (case v of Str s \<Rightarrow> ArrayV (map Str (split_on (\<lambda>ch. ch \<in> set ds) s)) | _ \<Rightarrow> Null)"

definition split_col :: "column \<Rightarrow> string \<Rightarrow> column" where
  "split_col c pat =
     \<lparr>ctype = (\<lambda>sch. case bracket_class pat of
                        None \<Rightarrow> Inl NotModelled
                      | Some _ \<Rightarrow>
                          (case ctype c sch of
                             Inl e \<Rightarrow> Inl e
                           | Inr StringT \<Rightarrow> Inr (ArrayT StringT)
                           | Inr _ \<Rightarrow> Inl NotModelled)),
      ceval = (\<lambda>r. case bracket_class pat of
                      None \<Rightarrow> Inl NotModelled
                    | Some ds \<Rightarrow>
                        (case ceval c r of Inl e \<Rightarrow> Inl e | Inr v \<Rightarrow> Inr (split_value ds v)))\<rparr>"

text \<open>
  \<^verbatim>\<open>c[i]\<close> on an array column. Outside the array the element is null (Spark's default,
  with \<^verbatim>\<open>spark.sql.ansi.enabled\<close> off).
\<close>

definition item_value :: "nat \<Rightarrow> val \<Rightarrow> val" where
  "item_value i v =
     (case v of ArrayV xs \<Rightarrow> (if i < length xs then xs ! i else Null) | _ \<Rightarrow> Null)"

definition getItem :: "column \<Rightarrow> nat \<Rightarrow> column" where
  "getItem c i =
     \<lparr>ctype = (\<lambda>sch. case ctype c sch of
                        Inl e \<Rightarrow> Inl e
                      | Inr (ArrayT t) \<Rightarrow> Inr t
                      | Inr _ \<Rightarrow> Inl NotModelled),
      ceval = (\<lambda>r. case ceval c r of Inl e \<Rightarrow> Inl e | Inr v \<Rightarrow> Inr (item_value i v))\<rparr>"

text \<open>
  \<^verbatim>\<open>from_json(name, schema)\<close> with no options, so in Spark's default mode
  (\<^verbatim>\<open>PERMISSIVE\<close>). Jackson skips blanks, tabs and line ends before the first token.
  A text with no token gives null (\<^verbatim>\<open>JacksonParser.parse\<close> returns no row, and
  \<^verbatim>\<open>JsonToStructs\<close> answers null for no row). A first token that does not open an
  object, and an object on which the reader raises, is a bad record: in this mode the
  result is the record with every field null. The notebook's schemas declare string
  fields only; a null input gives null.
\<close>

definition is_json_space :: "char \<Rightarrow> bool" where
  "is_json_space c = (c \<in> set [CHR 0x20, CHR 0x09, CHR 0x0A, CHR 0x0D])"

definition null_record :: "(string \<times> dtype) list \<Rightarrow> val" where
  "null_record flds = StructV (map (\<lambda>p. (fst p, Null)) flds)"

definition json_text_value :: "engine \<Rightarrow> (string \<times> dtype) list \<Rightarrow> string \<Rightarrow> val" where
  "json_text_value eng flds s =
     (case dropWhile is_json_space s of
        [] \<Rightarrow> Null
      | c # _ \<Rightarrow>
          (if c \<noteq> CHR ''{'' then null_record flds
           else (case read_object eng s of
                   None \<Rightarrow> null_record flds
                 | Some m \<Rightarrow>
                     StructV (map (\<lambda>p. (fst p, case m (fst p) of None \<Rightarrow> Null | Some t \<Rightarrow> Str t))
                                flds))))"

definition json_value :: "engine \<Rightarrow> (string \<times> dtype) list \<Rightarrow> val \<Rightarrow> val" where
  "json_value eng flds v = (case v of Str s \<Rightarrow> json_text_value eng flds s | _ \<Rightarrow> Null)"

definition from_json :: "engine \<Rightarrow> string \<Rightarrow> dtype \<Rightarrow> column" where
  "from_json eng name sch_t =
     \<lparr>ctype = (\<lambda>sch. case sch_t of
                        StructT flds \<Rightarrow>
                          (if list_all (\<lambda>p. snd p = StringT) flds
                           then (case ctype (col name) sch of
                                   Inl e \<Rightarrow> Inl e
                                 | Inr StringT \<Rightarrow> Inr sch_t
                                 | Inr _ \<Rightarrow> Inl NotModelled)
                           else Inl NotModelled)
                      | _ \<Rightarrow> Inl NotModelled),
      ceval = (\<lambda>r. case sch_t of
                      StructT flds \<Rightarrow>
                        (case ceval (col name) r of
                           Inl e \<Rightarrow> Inl e
                         | Inr v \<Rightarrow> Inr (json_value eng flds v))
                    | _ \<Rightarrow> Inl NotModelled)\<rparr>"

subsection \<open>Casts\<close>

text \<open>
  A string cast to \<^verbatim>\<open>int\<close> is \<^verbatim>\<open>UTF8String.toInt\<close>: blanks and control
  characters are trimmed at both ends, a sign may lead, the digits are accumulated as a
  negative 32-bit number (so that the smallest integer is reachable), a decimal point ends
  the integral part and the fraction, which must be digits, is dropped. The word
  arithmetic wraps as Java's \<^verbatim>\<open>int\<close> does; the checks around it are the source's.
\<close>

definition is_trimmed :: "char \<Rightarrow> bool" where
  "is_trimmed c = ((of_char c :: nat) \<le> 0x20 \<or> (of_char c :: nat) = 0x7F)"

definition is_digit :: "char \<Rightarrow> bool" where
  "is_digit c = (0x30 \<le> (of_char c :: nat) \<and> (of_char c :: nat) \<le> 0x39)"

definition trim :: "string \<Rightarrow> string" where
  "trim s = rev (dropWhile is_trimmed (rev (dropWhile is_trimmed s)))"

fun to_int_digits :: "32 word \<Rightarrow> string \<Rightarrow> (32 word \<times> string) option" where
  "to_int_digits res [] = Some (res, [])"
| "to_int_digits res (b # bs) =
     (if b = CHR ''.'' then Some (res, bs)
      else if \<not> is_digit b then None
      else if sint res < sint (- 214748364 :: 32 word) then None
      else (let res' = res * 10 - of_nat (of_char b - 0x30)
            in if 0 < sint res' then None else to_int_digits res' bs))"

definition cast_string_to_int :: "string \<Rightarrow> int option" where
  "cast_string_to_int s =
     (let t = trim s in
      if t = [] then None
      else
        (let negative = (hd t = CHR ''-'');
             has_sign = (negative \<or> hd t = CHR ''+'');
             body = (if has_sign then tl t else t)
         in if has_sign \<and> body = [] then None
            else
              (case to_int_digits 0 body of
                 None \<Rightarrow> None
               | Some (res, rest) \<Rightarrow>
                   (if \<not> list_all is_digit rest then None
                    else if negative then Some (sint res)
                    else if sint (- res) < 0 then None
                    else Some (sint (- res))))))"

text \<open>
  Binary64 arithmetic: the exact result, rounded to the nearest number with a 53-bit
  significand, ties to the even significand, with gradual underflow (no quantum below
  \<open>2 powi - 1074\<close>). \<open>to_double\<close> adds the overflow to an infinity.
\<close>

definition round_half_even :: "rat \<Rightarrow> int" where
  "round_half_even x =
     (let f = \<lfloor>x\<rfloor>; d = x - of_int f
      in if d < 1 / 2 then f else if 1 / 2 < d then f + 1 else if even f then f else f + 1)"

definition binary64 :: "rat \<Rightarrow> rat" where
  "binary64 x =
     (if x = 0 then 0
      else
        (let a = \<bar>x\<bar>;
             k = bitlen (fst (quotient_of a)) - bitlen (snd (quotient_of a));
             e = max ((if 2 powi k \<le> a then k else k - 1) - 52) (- 1074);
             m = round_half_even (a / 2 powi e)
         in sgn x * of_int m * 2 powi e))"

definition to_double :: "rat \<Rightarrow> dbl" where
  "to_double x =
     (let r = binary64 x
      in if 2 ^ 1024 \<le> \<bar>r\<bar> then (if 0 < x then PosInf else NegInf) else Fin r)"

text \<open>
  A string cast to \<^verbatim>\<open>double\<close> is Java's \<^verbatim>\<open>Double.parseDouble\<close> and, when that
  raises, Spark's \<^verbatim>\<open>processFloatingPointSpecialLiterals\<close>.

  The Java parser (\<^verbatim>\<open>FloatingDecimal.readJavaFormatString\<close>) trims the characters up
  to the blank at both ends, takes a sign, and then reads \<^verbatim>\<open>NaN\<close>, \<^verbatim>\<open>Infinity\<close>, a
  hexadecimal literal when the text goes on with \<^verbatim>\<open>0x\<close>, or a decimal literal: digits
  with at most one point and at least one digit, an exponent that must have digits, and
  at most one type suffix at the very end. The value is the exact value of the literal,
  rounded once.
\<close>

definition java_trim :: "string \<Rightarrow> string" where
  "java_trim s =
     rev (dropWhile (\<lambda>c. (of_char c :: nat) \<le> 0x20)
            (rev (dropWhile (\<lambda>c. (of_char c :: nat) \<le> 0x20) s)))"

definition digits_value :: "string \<Rightarrow> nat" where
  "digits_value ds = foldl (\<lambda>n c. 10 * n + (of_char c - 0x30)) 0 ds"

fun mantissa :: "bool \<Rightarrow> string \<Rightarrow> string \<Rightarrow> string \<Rightarrow> (string \<times> string \<times> string) option" where
  "mantissa seen ip fp [] = Some (ip, fp, [])"
| "mantissa seen ip fp (c # cs) =
     (if is_digit c
      then (if seen then mantissa seen ip (fp @ [c]) cs else mantissa seen (ip @ [c]) fp cs)
      else if c = CHR ''.'' then (if seen then None else mantissa True ip fp cs)
      else Some (ip, fp, c # cs))"

definition signed_digits :: "string \<Rightarrow> (int \<times> string) option" where
  "signed_digits cs =
     (let negative = (cs \<noteq> [] \<and> hd cs = CHR ''-'');
          ds = (if cs \<noteq> [] \<and> (hd cs = CHR ''-'' \<or> hd cs = CHR ''+'') then tl cs else cs)
      in if takeWhile is_digit ds = [] then None
         else Some ((if negative then - int (digits_value (takeWhile is_digit ds))
                     else int (digits_value (takeWhile is_digit ds))),
                    dropWhile is_digit ds))"

definition suffix_ok :: "string \<Rightarrow> bool" where
  "suffix_ok r = (r = [] \<or> r \<in> set [''f'', ''F'', ''d'', ''D''])"

definition parse_decimal :: "string \<Rightarrow> rat option" where
  "parse_decimal u =
     (case mantissa False [] [] u of
        None \<Rightarrow> None
      | Some (ip, fp, r) \<Rightarrow>
          (if ip = [] \<and> fp = [] then None
           else (case (if r \<noteq> [] \<and> (hd r = CHR ''e'' \<or> hd r = CHR ''E'')
                       then signed_digits (tl r) else Some (0, r)) of
                   None \<Rightarrow> None
                 | Some (e, r') \<Rightarrow>
                     (if suffix_ok r'
                      then Some (of_nat (digits_value (ip @ fp)) * 10 powi (e - int (length fp)))
                      else None))))"

text \<open>
  A hexadecimal literal is matched against the pattern of \<^verbatim>\<open>parseHexString\<close>:
  \<^verbatim>\<open>0x\<close>, hexadecimal digits with an optional point and at least one digit, a binary
  exponent (which is not optional) and an optional type suffix.
\<close>

definition is_hex_digit :: "char \<Rightarrow> bool" where
  "is_hex_digit c = (is_digit c \<or> c \<in> set ''abcdefABCDEF'')"

definition hex_digit_value :: "char \<Rightarrow> nat" where
  "hex_digit_value c =
     (if is_digit c then of_char c - 0x30
      else if c \<in> set ''abcdef'' then of_char c - 0x57
      else of_char c - 0x37)"

definition hex_value :: "string \<Rightarrow> nat" where
  "hex_value ds = foldl (\<lambda>n c. 16 * n + hex_digit_value c) 0 ds"

definition parse_hex :: "string \<Rightarrow> rat option" where
  "parse_hex u =
     (let b = drop 2 u;
          ip = takeWhile is_hex_digit b;
          r1 = dropWhile is_hex_digit b;
          pt = (r1 \<noteq> [] \<and> hd r1 = CHR ''.'');
          fp = (if pt then takeWhile is_hex_digit (tl r1) else []);
          r2 = (if pt then dropWhile is_hex_digit (tl r1) else r1)
      in if ip = [] \<and> fp = [] then None
         else if r2 = [] \<or> (hd r2 \<noteq> CHR ''p'' \<and> hd r2 \<noteq> CHR ''P'') then None
         else (case signed_digits (tl r2) of
                 None \<Rightarrow> None
               | Some (e, r3) \<Rightarrow>
                   (if suffix_ok r3
                    then Some (of_nat (hex_value (ip @ fp)) * 2 powi (e - 4 * int (length fp)))
                    else None)))"

definition java_parse_double :: "string \<Rightarrow> dbl option" where
  "java_parse_double s =
     (let t = java_trim s in
      if t = [] then None
      else
        (let negative = (hd t = CHR ''-'');
             u = (if hd t = CHR ''-'' \<or> hd t = CHR ''+'' then tl t else t)
         in if u = [] then None
            else if hd u = CHR ''N'' then (if u = ''NaN'' then Some NaN else None)
            else if hd u = CHR ''I''
            then (if u = ''Infinity'' then Some (if negative then NegInf else PosInf) else None)
            else map_option (\<lambda>q. to_double (if negative then - q else q))
                   (if hd u = CHR ''0'' \<and> tl u \<noteq> []
                       \<and> (hd (tl u) = CHR ''x'' \<or> hd (tl u) = CHR ''X'')
                    then parse_hex u else parse_decimal u)))"

definition to_lower :: "char \<Rightarrow> char" where
  "to_lower c =
     (if 0x41 \<le> (of_char c :: nat) \<and> (of_char c :: nat) \<le> 0x5A
      then char_of ((of_char c :: nat) + 0x20) else c)"

definition special_double :: "string \<Rightarrow> dbl option" where
  "special_double s =
     (let v = map to_lower (java_trim s)
      in if v \<in> set [''inf'', ''+inf'', ''infinity'', ''+infinity''] then Some PosInf
         else if v \<in> set [''-inf'', ''-infinity''] then Some NegInf
         else if v = ''nan'' then Some NaN
         else None)"

definition cast_string_to_double :: "string \<Rightarrow> dbl option" where
  "cast_string_to_double s =
     (case java_parse_double s of Some d \<Rightarrow> Some d | None \<Rightarrow> special_double s)"

text \<open>
  \<^verbatim>\<open>c / n\<close> on a long column and an integer literal: both sides become doubles, and a
  zero divisor gives null.
\<close>

definition divide_value :: "int \<Rightarrow> val \<Rightarrow> val" where
  "divide_value n v =
     (case v of
        LongV m \<Rightarrow>
          (if n = 0 then Null
           else DoubleV (Fin (binary64 (binary64 (of_int m) / binary64 (of_int n)))))
      | _ \<Rightarrow> Null)"

definition divide_by :: "column \<Rightarrow> int \<Rightarrow> column" where
  "divide_by c n =
     \<lparr>ctype = (\<lambda>sch. case ctype c sch of
                        Inl e \<Rightarrow> Inl e
                      | Inr LongT \<Rightarrow> Inr DoubleT
                      | Inr _ \<Rightarrow> Inl NotModelled),
      ceval = (\<lambda>r. case ceval c r of Inl e \<Rightarrow> Inl e | Inr v \<Rightarrow> Inr (divide_value n v))\<rparr>"

text \<open>
  A double cast to a timestamp: \<^verbatim>\<open>(d * 1000000).toLong\<close>, which truncates towards zero
  and saturates at the ends of the 64-bit range; a NaN or an infinity gives null.
\<close>

definition double_to_timestamp :: "dbl \<Rightarrow> val" where
  "double_to_timestamp d =
     (case d of
        Fin q \<Rightarrow>
          (let p = binary64 (q * 1000000);
               t = (if 0 \<le> p then \<lfloor>p\<rfloor> else \<lceil>p\<rceil>)
           in TimestampV (max (- (2 ^ 63)) (min (2 ^ 63 - 1) t)))
      | _ \<Rightarrow> Null)"

text \<open>
  \<^verbatim>\<open>c.cast(target)\<close> for the three casts of the notebook. A string that does not parse
  gives null (Spark's default, with \<^verbatim>\<open>spark.sql.ansi.enabled\<close> off). Here and in the
  other expressions, a value that is not of the column's type cannot occur in a frame that
  Spark built; the model reads it as null.
\<close>

definition cast_value :: "engine \<Rightarrow> string \<Rightarrow> val \<Rightarrow> val" where
  "cast_value eng target v =
     (if target = ''double''
      then (case v of
              Str s \<Rightarrow> (case cast_string_to_double s of None \<Rightarrow> Null | Some d \<Rightarrow> DoubleV d)
            | _ \<Rightarrow> Null)
      else if target = ''int''
      then (case v of
              Str s \<Rightarrow> (case cast_string_to_int s of None \<Rightarrow> Null | Some i \<Rightarrow> IntV i)
            | _ \<Rightarrow> Null)
      else (case v of DoubleV d \<Rightarrow> double_to_timestamp d | _ \<Rightarrow> Null))"

definition cast :: "engine \<Rightarrow> column \<Rightarrow> string \<Rightarrow> column" where
  "cast eng c target =
     \<lparr>ctype = (\<lambda>sch. case ctype c sch of
                        Inl e \<Rightarrow> Inl e
                      | Inr t \<Rightarrow>
                          (if t = StringT \<and> target = ''double'' then Inr DoubleT
                           else if t = StringT \<and> target = ''int'' then Inr IntegerT
                           else if t = DoubleT \<and> target = ''timestamp'' then Inr TimestampT
                           else Inl NotModelled)),
      ceval = (\<lambda>r. if target \<in> set [''double'', ''int'', ''timestamp'']
                    then (case ceval c r of Inl e \<Rightarrow> Inl e | Inr v \<Rightarrow> Inr (cast_value eng target v))
                    else Inl NotModelled)\<rparr>"

subsection \<open>Timestamps\<close>

text \<open>
  \<^verbatim>\<open>to_timestamp(name)\<close> with no format is the cast of the string to a timestamp; a
  string that does not parse gives null.
\<close>

definition timestamp_value :: "engine \<Rightarrow> val \<Rightarrow> val" where
  "timestamp_value eng v =
     (case v of
        Str s \<Rightarrow> (case string_to_timestamp eng s of None \<Rightarrow> Null | Some t \<Rightarrow> TimestampV t)
      | _ \<Rightarrow> Null)"

definition to_timestamp :: "engine \<Rightarrow> string \<Rightarrow> column" where
  "to_timestamp eng name =
     \<lparr>ctype = (\<lambda>sch. case ctype (col name) sch of
                        Inl e \<Rightarrow> Inl e
                      | Inr StringT \<Rightarrow> Inr TimestampT
                      | Inr _ \<Rightarrow> Inl NotModelled),
      ceval = (\<lambda>r. case ceval (col name) r of
                      Inl e \<Rightarrow> Inl e
                    | Inr v \<Rightarrow> Inr (timestamp_value eng v))\<rparr>"

text \<open>
  \<^verbatim>\<open>from_utc_timestamp(c, zone)\<close> is \<^verbatim>\<open>DateTimeUtils.convertTz(micros, UTC, zone)\<close>:
  the wall clock that the instant shows in \<open>zone\<close> is read as if it were UTC. The result
  is the instant moved by the zone's offset at that instant; the exact 64-bit arithmetic
  of \<^verbatim>\<open>instantToMicros\<close> raises when it overflows. Asia/Kuala\_Lumpur, the zone of the
  notebook, is eight hours east of UTC since 1982; other zones and earlier instants are
  read from the engine's time-zone database.
\<close>

definition zone_offset_at :: "engine \<Rightarrow> string \<Rightarrow> int \<Rightarrow> int" where
  "zone_offset_at eng zone s =
     (if zone = ''Asia/Kuala_Lumpur'' \<and> 378691200 \<le> s then 28800 else zone_offset eng zone s)"

definition utc_to_zone :: "engine \<Rightarrow> string \<Rightarrow> val \<Rightarrow> error + val" where
  "utc_to_zone eng zone v =
     (case v of
        TimestampV t \<Rightarrow>
          (let u = t + 1000000 * zone_offset_at eng zone (t div 1000000)
           in if - (2 ^ 63) \<le> u \<and> u < 2 ^ 63 then Inr (TimestampV u)
              else Inl ArithmeticException)
      | _ \<Rightarrow> Inr Null)"

definition from_utc_timestamp :: "engine \<Rightarrow> column \<Rightarrow> string \<Rightarrow> column" where
  "from_utc_timestamp eng c zone =
     \<lparr>ctype = (\<lambda>sch. case ctype c sch of
                        Inl e \<Rightarrow> Inl e
                      | Inr TimestampT \<Rightarrow> Inr TimestampT
                      | Inr _ \<Rightarrow> Inl NotModelled),
      ceval = (\<lambda>r. case ceval c r of Inl e \<Rightarrow> Inl e | Inr v \<Rightarrow> utc_to_zone eng zone v)\<rparr>"

subsection \<open>SHA-256\<close>

text \<open>
  \<^verbatim>\<open>sha2(c, 256)\<close> is the SHA-256 digest (FIPS 180-4) of the string's bytes, written as
  hexadecimal digits in lower case. The digest is computed on 32-bit words; the eight
  words of the state are a tuple, so a digest is 256 bits by construction. The round
  constants are the first 32 bits of the fractional parts of the cube roots of the first
  64 primes, and the initial state those of the square roots of the first 8 primes.
\<close>

type_synonym sha_state =
  "32 word \<times> 32 word \<times> 32 word \<times> 32 word \<times> 32 word \<times> 32 word \<times> 32 word \<times> 32 word"

definition K256 :: "32 word list" where
  "K256 =
    [1116352408, 1899447441, 3049323471, 3921009573, 961987163, 1508970993, 2453635748, 2870763221,
     3624381080, 310598401, 607225278, 1426881987, 1925078388, 2162078206, 2614888103, 3248222580,
     3835390401, 4022224774, 264347078, 604807628, 770255983, 1249150122, 1555081692, 1996064986,
     2554220882, 2821834349, 2952996808, 3210313671, 3336571891, 3584528711, 113926993, 338241895,
     666307205, 773529912, 1294757372, 1396182291, 1695183700, 1986661051, 2177026350, 2456956037,
     2730485921, 2820302411, 3259730800, 3345764771, 3516065817, 3600352804, 4094571909, 275423344,
     430227734, 506948616, 659060556, 883997877, 958139571, 1322822218, 1537002063, 1747873779,
     1955562222, 2024104815, 2227730452, 2361852424, 2428436474, 2756734187, 3204031479, 3329325298]"

definition H256 :: sha_state where
  "H256 = (1779033703, 3144134277, 1013904242, 2773480762,
           1359893119, 2600822924, 528734635, 1541459225)"

definition ch :: "32 word \<Rightarrow> 32 word \<Rightarrow> 32 word \<Rightarrow> 32 word" where
  "ch x y z = (x AND y) XOR (NOT x AND z)"

definition maj :: "32 word \<Rightarrow> 32 word \<Rightarrow> 32 word \<Rightarrow> 32 word" where
  "maj x y z = (x AND y) XOR (x AND z) XOR (y AND z)"

definition bsig0 :: "32 word \<Rightarrow> 32 word" where
  "bsig0 x = word_rotr 2 x XOR word_rotr 13 x XOR word_rotr 22 x"

definition bsig1 :: "32 word \<Rightarrow> 32 word" where
  "bsig1 x = word_rotr 6 x XOR word_rotr 11 x XOR word_rotr 25 x"

definition ssig0 :: "32 word \<Rightarrow> 32 word" where
  "ssig0 x = word_rotr 7 x XOR word_rotr 18 x XOR drop_bit 3 x"

definition ssig1 :: "32 word \<Rightarrow> 32 word" where
  "ssig1 x = word_rotr 17 x XOR word_rotr 19 x XOR drop_bit 10 x"

fun schedule :: "nat \<Rightarrow> 32 word list \<Rightarrow> 32 word list" where
  "schedule 0 w = w"
| "schedule (Suc n) w =
     schedule n (w @ [ssig1 (w ! (length w - 2)) + w ! (length w - 7)
                      + ssig0 (w ! (length w - 15)) + w ! (length w - 16)])"

definition round_step :: "sha_state \<Rightarrow> 32 word \<times> 32 word \<Rightarrow> sha_state" where
  "round_step st kw =
     (case st of (a, b, c, d, e, f, g, h) \<Rightarrow>
        (let t1 = h + bsig1 e + ch e f g + fst kw + snd kw;
             t2 = bsig0 a + maj a b c
         in (t1 + t2, a, b, c, d + t1, e, f, g)))"

definition compress :: "sha_state \<Rightarrow> 32 word list \<Rightarrow> sha_state" where
  "compress st block =
     (case st of (a0, b0, c0, d0, e0, f0, g0, h0) \<Rightarrow>
        (case foldl round_step st (zip K256 (schedule 48 block)) of
           (a, b, c, d, e, f, g, h) \<Rightarrow>
             (a0 + a, b0 + b, c0 + c, d0 + d, e0 + e, f0 + f, g0 + g, h0 + h)))"

definition pad :: "nat list \<Rightarrow> nat list" where
  "pad msg =
     msg @ [0x80] @ replicate ((64 - (length msg + 9) mod 64) mod 64) 0
     @ map (\<lambda>i. (8 * length msg) div 2 ^ (8 * i) mod 256) [7, 6, 5, 4, 3, 2, 1, 0]"

fun be_words :: "nat list \<Rightarrow> 32 word list" where
  "be_words (b0 # b1 # b2 # b3 # bs) =
     of_nat (b0 * 2 ^ 24 + b1 * 2 ^ 16 + b2 * 2 ^ 8 + b3) # be_words bs"
| "be_words _ = []"

fun blocks :: "nat \<Rightarrow> nat list \<Rightarrow> nat list list" where
  "blocks 0 bs = []"
| "blocks (Suc n) bs = take 64 bs # blocks n (drop 64 bs)"

definition sha256 :: "string \<Rightarrow> sha_state" where
  "sha256 s =
     (let bs = pad (map of_char s)
      in foldl (\<lambda>st b. compress st (be_words b)) H256 (blocks (length bs div 64) bs))"

definition hex_digit :: "nat \<Rightarrow> char" where
  "hex_digit n = ''0123456789abcdef'' ! (n mod 16)"

definition hex32 :: "32 word \<Rightarrow> string" where
  "hex32 w = map (\<lambda>i. hex_digit (unat w div 16 ^ i)) [7, 6, 5, 4, 3, 2, 1, 0]"

definition sha256_hex :: "string \<Rightarrow> string" where
  "sha256_hex s =
     (case sha256 s of (a, b, c, d, e, f, g, h) \<Rightarrow>
        hex32 a @ hex32 b @ hex32 c @ hex32 d @ hex32 e @ hex32 f @ hex32 g @ hex32 h)"

text \<open>
  \<^verbatim>\<open>sha2(c, bits)\<close> on a string column; null stays null. A column of another type is
  rejected (Spark asks for a binary or string argument), and only 256 bits are modelled.
\<close>

definition sha2_value :: "val \<Rightarrow> val" where
  "sha2_value v = (case v of Str s \<Rightarrow> Str (sha256_hex s) | _ \<Rightarrow> Null)"

definition sha2 :: "column \<Rightarrow> nat \<Rightarrow> column" where
  "sha2 c bits =
     \<lparr>ctype = (\<lambda>sch. if bits \<noteq> 256 then Inl NotModelled
                      else (case ctype c sch of
                              Inl e \<Rightarrow> Inl e
                            | Inr StringT \<Rightarrow> Inr StringT
                            | Inr _ \<Rightarrow> Inl AnalysisException)),
      ceval = (\<lambda>r. if bits \<noteq> 256 then Inl NotModelled
                    else (case ceval c r of Inl e \<Rightarrow> Inl e | Inr v \<Rightarrow> Inr (sha2_value v)))\<rparr>"

section \<open>The cells of the notebook\<close>

definition personal_schema :: dtype where
  "personal_schema =
     StructT [(''person_name'', StringT), (''gender'', StringT), (''address'', StringT),
              (''lat'', StringT), (''long'', StringT), (''city_pop'', StringT),
              (''job'', StringT), (''dob'', StringT)]"

definition address_schema :: dtype where
  "address_schema =
     StructT [(''street'', StringT), (''city'', StringT), (''state'', StringT),
              (''zip'', StringT)]"

text \<open>Cell \<^verbatim>\<open>personal-detail-schema\<close>.\<close>

definition parse_personal_detail :: "engine \<Rightarrow> dataframe \<Rightarrow> error + dataframe" where
  "parse_personal_detail eng df_raw =
     then_do (withColumn ''personal_detail_json''
                (from_json eng ''personal_detail'' personal_schema) df_raw)
       (\<lambda>d. Inr (drop_cols [''personal_detail''] d))"

text \<open>Cell \<^verbatim>\<open>address-schema\<close>.\<close>

definition parse_address :: "engine \<Rightarrow> dataframe \<Rightarrow> error + dataframe" where
  "parse_address eng df =
     withColumn ''address_json'' (from_json eng ''personal_detail_json.address'' address_schema) df"

text \<open>Cell \<^verbatim>\<open>flatten-fields\<close>.\<close>

definition flatten_columns :: "engine \<Rightarrow> (string \<times> column) list" where
  "flatten_columns eng =
     [(''first'', getItem (split_col (col ''personal_detail_json.person_name'') ''[,@/]'') 0),
      (''last'', getItem (split_col (col ''personal_detail_json.person_name'') ''[,@/]'') 1),
      (''gender'', col ''personal_detail_json.gender''),
      (''dob'', col ''personal_detail_json.dob''),
      (''street'', col ''address_json.street''),
      (''city'', col ''address_json.city''),
      (''state'', col ''address_json.state''),
      (''zip'', col ''address_json.zip''),
      (''lat'', cast eng (col ''personal_detail_json.lat'') ''double''),
      (''long'', cast eng (col ''personal_detail_json.long'') ''double''),
      (''city_pop'', cast eng (col ''personal_detail_json.city_pop'') ''int''),
      (''job'', col ''personal_detail_json.job'')]"

definition flatten_fields :: "engine \<Rightarrow> dataframe \<Rightarrow> error + dataframe" where
  "flatten_fields eng df =
     then_do (withColumns (flatten_columns eng) df)
       (\<lambda>d. Inr (drop_cols [''personal_detail_json'', ''address_json''] d))"

text \<open>Cell \<^verbatim>\<open>timestamp-convert\<close>.\<close>

definition convert_epoch_microseconds :: "engine \<Rightarrow> string \<Rightarrow> column" where
  "convert_epoch_microseconds eng colname =
     from_utc_timestamp eng (cast eng (divide_by (col colname) 1000000) ''timestamp'')
       ''Asia/Kuala_Lumpur''"

definition timestamp_columns :: "engine \<Rightarrow> (string \<times> column) list" where
  "timestamp_columns eng =
     [(''trans_date_trans_time'', to_timestamp eng ''trans_date_trans_time''),
      (''merch_last_update_time'', convert_epoch_microseconds eng ''merch_last_update_time''),
      (''merch_eff_time'', convert_epoch_microseconds eng ''merch_eff_time'')]"

definition normalize_timestamps :: "engine \<Rightarrow> dataframe \<Rightarrow> error + dataframe" where
  "normalize_timestamps eng df = withColumns (timestamp_columns eng) df"

text \<open>Cell \<^verbatim>\<open>mask-cc\<close>.\<close>

definition mask_cc :: "dataframe \<Rightarrow> error + dataframe" where
  "mask_cc df = withColumn ''cc_num_masked'' (sha2 (col ''cc_num'') 256) df"

text \<open>The cells in the order of the notebook, from the loaded frame to the last \<open>df\<close>.\<close>

definition pipeline :: "engine \<Rightarrow> dataframe \<Rightarrow> error + dataframe" where
  "pipeline eng df_raw =
     then_do (parse_personal_detail eng df_raw) (\<lambda>d1.
     then_do (parse_address eng d1) (\<lambda>d2.
     then_do (flatten_fields eng d2) (\<lambda>d3.
     then_do (normalize_timestamps eng d3) mask_cc)))"

section \<open>Row-wise reading of the cells\<close>

text \<open>
  The vocabulary of the statements below. \<open>cval\<close> is the value of an expression on a
  row (null where it raises), \<open>with_value\<close> and \<open>with_values\<close> are what
  \<open>withColumn\<close> and \<open>withColumns\<close> do to one row, \<open>evaluates\<close> says that no
  expression of a list raises on a row, and \<open>type_all\<close> is the schema after a list of
  \<open>withColumn\<close>s. The lemmas of the next sections show that the cells are these
  row-wise functions applied to every row.
\<close>

definition cval :: "column \<Rightarrow> row \<Rightarrow> val" where
  "cval c r = (case ceval c r of Inl _ \<Rightarrow> Null | Inr v \<Rightarrow> v)"

definition with_value :: "string \<Rightarrow> column \<Rightarrow> row \<Rightarrow> row" where
  "with_value name c r = AList.update name (cval c r) r"

fun with_values :: "(string \<times> column) list \<Rightarrow> row \<Rightarrow> row" where
  "with_values [] r = r"
| "with_values ((name, c) # cs) r = with_values cs (with_value name c r)"

fun evaluates :: "(string \<times> column) list \<Rightarrow> row \<Rightarrow> bool" where
  "evaluates [] r = True"
| "evaluates ((name, c) # cs) r =
     (case ceval c r of Inl _ \<Rightarrow> False | Inr _ \<Rightarrow> evaluates cs (with_value name c r))"

fun type_all :: "(string \<times> column) list \<Rightarrow> (string \<times> dtype) list \<Rightarrow> error + (string \<times> dtype) list" where
  "type_all [] sch = Inr sch"
| "type_all ((name, c) # cs) sch =
     (case ctype c sch of Inl e \<Rightarrow> Inl e | Inr t \<Rightarrow> type_all cs (AList.update name t sch))"

definition infallible :: "column \<Rightarrow> bool" where
  "infallible c = (\<forall>r. \<exists>v. ceval c r = Inr v)"

definition epoch_value :: "engine \<Rightarrow> val \<Rightarrow> error + val" where
  "epoch_value eng v =
     utc_to_zone eng ''Asia/Kuala_Lumpur'' (cast_value eng ''timestamp'' (divide_value 1000000 v))"

definition personal_detail_row :: "engine \<Rightarrow> row \<Rightarrow> row" where
  "personal_detail_row eng r =
     drop_row [''personal_detail'']
       (with_value ''personal_detail_json'' (from_json eng ''personal_detail'' personal_schema) r)"

definition address_row :: "engine \<Rightarrow> row \<Rightarrow> row" where
  "address_row eng r =
     with_value ''address_json'' (from_json eng ''personal_detail_json.address'' address_schema) r"

definition flatten_row :: "engine \<Rightarrow> row \<Rightarrow> row" where
  "flatten_row eng r =
     drop_row [''personal_detail_json'', ''address_json''] (with_values (flatten_columns eng) r)"

definition timestamp_row :: "engine \<Rightarrow> row \<Rightarrow> row" where
  "timestamp_row eng r = with_values (timestamp_columns eng) r"

definition mask_row :: "row \<Rightarrow> row" where
  "mask_row r = with_value ''cc_num_masked'' (sha2 (col ''cc_num'') 256) r"

definition pipeline_row :: "engine \<Rightarrow> row \<Rightarrow> row" where
  "pipeline_row eng r =
     mask_row (timestamp_row eng (flatten_row eng (address_row eng (personal_detail_row eng r))))"

definition flatten_schema :: "(string \<times> dtype) list \<Rightarrow> (string \<times> dtype) list" where
  "flatten_schema sch =
     drop_row [''personal_detail_json'', ''address_json'']
       (fold (\<lambda>p. AList.update (fst p) (snd p))
          [(''first'', StringT), (''last'', StringT), (''gender'', StringT), (''dob'', StringT),
           (''street'', StringT), (''city'', StringT), (''state'', StringT), (''zip'', StringT),
           (''lat'', DoubleT), (''long'', DoubleT), (''city_pop'', IntegerT), (''job'', StringT)] sch)"

definition timestamp_schema :: "(string \<times> dtype) list \<Rightarrow> (string \<times> dtype) list" where
  "timestamp_schema sch =
     fold (\<lambda>p. AList.update (fst p) (snd p))
       [(''trans_date_trans_time'', TimestampT), (''merch_last_update_time'', TimestampT),
        (''merch_eff_time'', TimestampT)] sch"

definition epoch_ok :: "engine \<Rightarrow> row \<Rightarrow> bool" where
  "epoch_ok eng r =
     (\<not> isl (epoch_value eng (lookup r ''merch_last_update_time'')) \<and>
      \<not> isl (epoch_value eng (lookup r ''merch_eff_time'')))"

definition raw_ok :: "(string \<times> dtype) list \<Rightarrow> bool" where
  "raw_ok sch =
     (map_of sch ''personal_detail'' = Some StringT \<and>
      map_of sch ''trans_date_trans_time'' = Some StringT \<and>
      map_of sch ''merch_last_update_time'' = Some LongT \<and>
      map_of sch ''merch_eff_time'' = Some LongT \<and>
      map_of sch ''cc_num'' = Some StringT)"

definition final_schema :: "(string \<times> dtype) list \<Rightarrow> (string \<times> dtype) list" where
  "final_schema sch =
     AList.update ''cc_num_masked'' StringT
       (timestamp_schema
          (flatten_schema
             (AList.update ''address_json'' address_schema
                (drop_row [''personal_detail'']
                   (AList.update ''personal_detail_json'' personal_schema sch)))))"

section \<open>Reading a timestamp\<close>

text \<open>
  The wall clock that a timestamp shows in UTC: the date of the proleptic Gregorian
  calendar from the day number, then hour, minute and second.
\<close>

definition civil_from_days :: "int \<Rightarrow> int \<times> int \<times> int" where
  "civil_from_days z0 =
     (let z = z0 + 719468;
          era = z div 146097;
          doe = z - era * 146097;
          yoe = (doe - doe div 1460 + doe div 36524 - doe div 146096) div 365;
          doy = doe - (365 * yoe + yoe div 4 - yoe div 100);
          mp = (5 * doy + 2) div 153;
          d = doy - (153 * mp + 2) div 5 + 1;
          m = (if mp < 10 then mp + 3 else mp - 9)
      in (yoe + era * 400 + (if m \<le> 2 then 1 else 0), m, d))"

definition wall_clock_utc :: "val \<Rightarrow> (int \<times> int \<times> int \<times> int \<times> int \<times> int) option" where
  "wall_clock_utc v =
     (case v of
        TimestampV t \<Rightarrow>
          (let s = t div 1000000; sod = s mod 86400
           in (case civil_from_days (s div 86400) of
                 (y, m, d) \<Rightarrow> Some (y, m, d, sod div 3600, sod mod 3600 div 60, sod mod 60)))
      | _ \<Rightarrow> None)"

section \<open>Example data\<close>

text \<open>
  The record of the specification's end-to-end scenario. Its \<open>personal_detail\<close> is a
  JSON text whose \<open>address\<close> member is again a JSON text, with its quotes escaped.
\<close>

definition quoted :: "string \<Rightarrow> string" where
  "quoted s = CHR 0x22 # s @ [CHR 0x22]"

definition json_escape :: "string \<Rightarrow> string" where
  "json_escape s = concat (map (\<lambda>c. if c = CHR 0x22 \<or> c = CHR 0x5C then [CHR 0x5C, c] else [c]) s)"

fun json_members :: "(string \<times> string) list \<Rightarrow> string" where
  "json_members [] = []"
| "json_members [(k, v)] = quoted k @ '':'' @ quoted (json_escape v)"
| "json_members ((k, v) # kvs) = quoted k @ '':'' @ quoted (json_escape v) @ '','' @ json_members kvs"

definition json_object :: "(string \<times> string) list \<Rightarrow> string" where
  "json_object kvs = ''{'' @ json_members kvs @ ''}''"

definition doe_address :: "(string \<times> string) list" where
  "doe_address = [(''street'', ''1 Main St''), (''city'', ''KL''), (''state'', ''WP''), (''zip'', ''50000'')]"

definition doe_person :: "(string \<times> string) list" where
  "doe_person =
     [(''person_name'', ''Doe,John''), (''gender'', ''M''), (''address'', json_object doe_address),
      (''lat'', ''3.1''), (''long'', ''101.6''), (''city_pop'', ''10000''), (''job'', ''Engineer''),
      (''dob'', ''1990-01-01'')]"

text \<open>
  An engine for the examples. It answers as Spark does on the texts that the examples
  use: the two JSON objects of the scenario are read, another text that opens an object
  is taken to be broken further on; one timestamp string is read, in a session whose time
  zone is UTC. Its time-zone database is not consulted by the examples. On other inputs
  it is not meant to agree with Spark.
\<close>

definition example_engine :: engine where
  "example_engine =
     \<lparr>read_object =
        (\<lambda>s. if s = json_object doe_person then Some (map_of doe_person)
             else if s = json_object doe_address then Some (map_of doe_address)
             else None),
      string_to_timestamp =
        (\<lambda>s. if s = ''2021-01-01 10:00:00'' then Some 1609495200000000 else None),
      zone_offset = (\<lambda>zone s. 0)\<rparr>"

text \<open>
  The loaded frame of the scenario (\<^verbatim>\<open>spark.read.json\<close> orders the columns by name),
  with a second record whose nested JSON, timestamp string and identifier are unusable.
\<close>

definition example_raw :: dataframe where
  "example_raw =
     \<lparr>schema =
        [(''amt'', DoubleT), (''category'', StringT), (''cc_num'', StringT), (''is_fraud'', LongT),
         (''merch_eff_time'', LongT), (''merch_last_update_time'', LongT),
         (''personal_detail'', StringT), (''trans_date_trans_time'', StringT)],
      rows =
        [[(''amt'', DoubleV (Fin 50)), (''category'', Str ''grocery''),
          (''cc_num'', Str ''4111111111111111''), (''is_fraud'', LongV 0),
          (''merch_eff_time'', LongV 1609459200000000),
          (''merch_last_update_time'', LongV 1609459200000000),
          (''personal_detail'', Str (json_object doe_person)),
          (''trans_date_trans_time'', Str ''2021-01-01 10:00:00'')],
         [(''amt'', DoubleV (Fin 12)), (''category'', Str ''travel''),
          (''cc_num'', Null), (''is_fraud'', LongV 1),
          (''merch_eff_time'', Null),
          (''merch_last_update_time'', LongV 0),
          (''personal_detail'', Str ''{not json''),
          (''trans_date_trans_time'', Str ''yesterday'')]]\<rparr>"

text \<open>A frame as the flattener receives it: two parsed records.\<close>

definition nested_frame :: dataframe where
  "nested_frame =
     \<lparr>schema =
        [(''category'', StringT), (''personal_detail_json'', personal_schema),
         (''address_json'', address_schema)],
      rows =
        [[(''category'', Str ''grocery''),
          (''personal_detail_json'',
             StructV [(''person_name'', Str ''Doe,John''), (''gender'', Str ''M''),
                      (''address'', Str (json_object doe_address)), (''lat'', Str ''3.1''),
                      (''long'', Str ''101.6''), (''city_pop'', Str ''10000''),
                      (''job'', Str ''Engineer''), (''dob'', Str ''1990-01-01'')]),
          (''address_json'',
             StructV [(''street'', Str ''1 Main St''), (''city'', Str ''KL''),
                      (''state'', Str ''WP''), (''zip'', Str ''50000'')])],
         [(''category'', Str ''travel''),
          (''personal_detail_json'',
             StructV [(''person_name'', Str ''OnlyOneName''), (''gender'', Null),
                      (''address'', Null), (''lat'', Str ''abc''),
                      (''long'', Str ''east''), (''city_pop'', Str ''not_a_number''),
                      (''job'', Null), (''dob'', Null)]),
          (''address_json'', Null)]]\<rparr>"

text \<open>A frame as the timestamp cell receives it, with the instant of the specification.\<close>

definition epoch_frame :: dataframe where
  "epoch_frame =
     \<lparr>schema =
        [(''merch_eff_time'', LongT), (''merch_last_update_time'', LongT),
         (''trans_date_trans_time'', StringT)],
      rows =
        [[(''merch_eff_time'', LongV 1609459200000000),
          (''merch_last_update_time'', LongV 1609459200000000),
          (''trans_date_trans_time'', Str ''2021-01-01 10:00:00'')]]\<rparr>"

text \<open>A frame as the address parser receives it; the address is not a JSON text.\<close>

definition address_frame :: dataframe where
  "address_frame =
     \<lparr>schema = [(''category'', StringT), (''personal_detail_json'', personal_schema)],
      rows =
        [[(''category'', Str ''misc''),
          (''personal_detail_json'',
             StructV [(''person_name'', Str ''Lee/Ann''), (''gender'', Str ''F''),
                      (''address'', Str ''1 Main St, KL''), (''lat'', Str ''3.1''),
                      (''long'', Str ''101.6''), (''city_pop'', Str ''10000''),
                      (''job'', Str ''Nurse''), (''dob'', Str ''1985-05-05'')])]]\<rparr>"

text \<open>
  The vocabulary of the specification for the split of a name: a delimiter is one of the
  three characters of the class, and pieces are put together again with the delimiters
  that stood between them.
\<close>

definition delimiter :: "char \<Rightarrow> bool" where
  "delimiter c = (c = CHR '','' \<or> c = CHR ''@'' \<or> c = CHR ''/'')"

fun interleave :: "string list \<Rightarrow> string \<Rightarrow> string" where
  "interleave [] ds = []"
| "interleave [p] ds = p"
| "interleave (p # q # ps) [] = p @ interleave (q # ps) []"
| "interleave (p # q # ps) (d # ds) = p @ d # interleave (q # ps) ds"

text \<open>A frame as the flattener receives it, with names of one, two and three pieces.\<close>

definition names_frame :: dataframe where
  "names_frame =
     \<lparr>schema =
        [(''category'', StringT), (''personal_detail_json'', personal_schema),
         (''address_json'', address_schema)],
      rows =
        map (\<lambda>name. [(''category'', Str ''misc''),
                      (''personal_detail_json'',
                         StructV [(''person_name'', name), (''gender'', Null), (''address'', Null),
                                  (''lat'', Null), (''long'', Null), (''city_pop'', Null),
                                  (''job'', Null), (''dob'', Null)]),
                      (''address_json'', Null)])
          [Str ''Doe,John'', Str ''OnlyOneName'', Str ''Lee@Ann/Kim,Jr'', Str ''Doe/'', Null]\<rparr>"

section \<open>Facts about the frame operations\<close>

lemma traverse_ok:
  "list_all (\<lambda>x. \<exists>y. f x = Inr y) xs \<Longrightarrow> traverse f xs = Inr (map (\<lambda>x. projr (f x)) xs)"
  by (induction xs) auto

lemma traverse_InrD:
  "traverse f xs = Inr ys \<Longrightarrow> list_all (\<lambda>x. \<exists>y. f x = Inr y) xs \<and> ys = map (\<lambda>x. projr (f x)) xs"
  by (induction xs arbitrary: ys) (auto split: sum.splits)

lemma traverse_Inr:
  "traverse f xs = Inr ys \<longleftrightarrow> (list_all (\<lambda>x. \<exists>y. f x = Inr y) xs \<and> ys = map (\<lambda>x. projr (f x)) xs)"
  using traverse_ok traverse_InrD by blast

lemma traverse_length: "traverse f xs = Inr ys \<Longrightarrow> length ys = length xs"
  by (simp add: traverse_Inr)

lemma withColumn_Inr:
  "withColumn name c df = Inr out \<longleftrightarrow>
     (\<exists>t. ctype c (schema df) = Inr t \<and>
          list_all (\<lambda>r. \<exists>v. ceval c r = Inr v) (rows df) \<and>
          out = \<lparr>schema = AList.update name t (schema df),
                 rows = map (with_value name c) (rows df)\<rparr>)"
proof -
  let ?f = "\<lambda>r. case ceval c r of Inl e \<Rightarrow> Inl e | Inr v \<Rightarrow> Inr (AList.update name v r)"
  have ok: "(\<exists>y. ?f r = Inr y) \<longleftrightarrow> (\<exists>v. ceval c r = Inr v)" for r
    by (auto split: sum.splits)
  have eq: "map (\<lambda>r. projr (?f r)) (rows df) = map (with_value name c) (rows df)"
    if "list_all (\<lambda>r. \<exists>v. ceval c r = Inr v) (rows df)"
    using that by (auto simp: list_all_iff with_value_def cval_def)
  have tr: "traverse ?f (rows df) = Inr rs \<longleftrightarrow>
      (list_all (\<lambda>r. \<exists>v. ceval c r = Inr v) (rows df) \<and> rs = map (with_value name c) (rows df))" for rs
    unfolding traverse_Inr ok using eq by auto
  show ?thesis
  proof (cases "ctype c (schema df)")
    case (Inl e)
    then show ?thesis by (simp add: withColumn_def)
  next
    case (Inr t)
    show ?thesis
    proof (cases "traverse ?f (rows df)")
      case (Inl e)
      with tr show ?thesis using Inr by (auto simp: withColumn_def)
    next
      case (Inr rs)
      with tr have "list_all (\<lambda>r. \<exists>v. ceval c r = Inr v) (rows df)"
        and "rs = map (with_value name c) (rows df)" by auto
      with Inr \<open>ctype c (schema df) = Inr t\<close> show ?thesis
        by (auto simp: withColumn_def)
    qed
  qed
qed

lemma withColumns_Inr:
  "withColumns cs df = Inr out \<longleftrightarrow>
     (\<exists>sch. type_all cs (schema df) = Inr sch \<and> list_all (evaluates cs) (rows df) \<and>
            out = \<lparr>schema = sch, rows = map (with_values cs) (rows df)\<rparr>)"
proof (induction cs arbitrary: df)
  case Nil
  show ?case by (cases df; cases out) (auto simp: list_all_iff)
next
  case (Cons a cs)
  obtain name c where a: "a = (name, c)" by (cases a)
  have ev: "list_all (evaluates ((name, c) # cs)) rs \<longleftrightarrow>
      list_all (\<lambda>r. \<exists>v. ceval c r = Inr v) rs \<and> list_all (evaluates cs) (map (with_value name c) rs)" for rs
    by (induction rs) (auto split: sum.splits)
  show ?case
  proof (cases "withColumn name c df")
    case (Inl e)
    then have "\<not> (\<exists>t. ctype c (schema df) = Inr t \<and> list_all (\<lambda>r. \<exists>v. ceval c r = Inr v) (rows df))"
      using withColumn_Inr [of name c df] by auto
    with Inl show ?thesis
      unfolding a by (auto simp: then_do_def ev split: sum.splits simp del: evaluates.simps)
  next
    case (Inr d)
    then obtain t where t: "ctype c (schema df) = Inr t"
      and rs: "list_all (\<lambda>r. \<exists>v. ceval c r = Inr v) (rows df)"
      and d: "d = \<lparr>schema = AList.update name t (schema df), rows = map (with_value name c) (rows df)\<rparr>"
      using withColumn_Inr [of name c df d] by auto
    show ?thesis
      unfolding a using Inr t rs
      by (simp add: then_do_def Cons.IH ev d comp_def del: evaluates.simps)
  qed
qed

section \<open>Facts about the column expressions\<close>

lemma split_on_not_Nil [simp]: "split_on p s \<noteq> []"
  by (induction s) (auto split: list.splits)

lemma split_on_no_match: "\<forall>c \<in> set s. \<not> p c \<Longrightarrow> split_on p s = [s]"
  by (induction s) auto

lemma name_parts [simp]:
  "split_on (\<lambda>c. c = CHR ''.'') ''personal_detail'' = [''personal_detail'']"
  "split_on (\<lambda>c. c = CHR ''.'') ''trans_date_trans_time'' = [''trans_date_trans_time'']"
  "split_on (\<lambda>c. c = CHR ''.'') ''merch_last_update_time'' = [''merch_last_update_time'']"
  "split_on (\<lambda>c. c = CHR ''.'') ''merch_eff_time'' = [''merch_eff_time'']"
  "split_on (\<lambda>c. c = CHR ''.'') ''cc_num'' = [''cc_num'']"
  "split_on (\<lambda>c. c = CHR ''.'') ''personal_detail_json.person_name'' = [''personal_detail_json'', ''person_name'']"
  "split_on (\<lambda>c. c = CHR ''.'') ''personal_detail_json.gender'' = [''personal_detail_json'', ''gender'']"
  "split_on (\<lambda>c. c = CHR ''.'') ''personal_detail_json.address'' = [''personal_detail_json'', ''address'']"
  "split_on (\<lambda>c. c = CHR ''.'') ''personal_detail_json.lat'' = [''personal_detail_json'', ''lat'']"
  "split_on (\<lambda>c. c = CHR ''.'') ''personal_detail_json.long'' = [''personal_detail_json'', ''long'']"
  "split_on (\<lambda>c. c = CHR ''.'') ''personal_detail_json.city_pop'' = [''personal_detail_json'', ''city_pop'']"
  "split_on (\<lambda>c. c = CHR ''.'') ''personal_detail_json.job'' = [''personal_detail_json'', ''job'']"
  "split_on (\<lambda>c. c = CHR ''.'') ''personal_detail_json.dob'' = [''personal_detail_json'', ''dob'']"
  "split_on (\<lambda>c. c = CHR ''.'') ''address_json.street'' = [''address_json'', ''street'']"
  "split_on (\<lambda>c. c = CHR ''.'') ''address_json.city'' = [''address_json'', ''city'']"
  "split_on (\<lambda>c. c = CHR ''.'') ''address_json.state'' = [''address_json'', ''state'']"
  "split_on (\<lambda>c. c = CHR ''.'') ''address_json.zip'' = [''address_json'', ''zip'']"
  by simp_all

lemma bracket_class_pattern [simp]: "bracket_class ''[,@/]'' = Some '',@/''"
  by (simp add: bracket_class_def)

lemma ceval_col: "ceval (col name) r = Inr (cval (col name) r)"
  by (simp add: col_def cval_def split: list.splits)

lemma cval_col:
  "cval (col name) r =
     get_path (tl (split_on (\<lambda>c. c = CHR ''.'') name)) (lookup r (hd (split_on (\<lambda>c. c = CHR ''.'') name)))"
  by (simp add: col_def cval_def split: list.splits)

lemma ctype_col:
  "ctype (col name) sch =
     (case map_of sch (hd (split_on (\<lambda>c. c = CHR ''.'') name)) of
        None \<Rightarrow> Inl AnalysisException
      | Some t \<Rightarrow> field_type (tl (split_on (\<lambda>c. c = CHR ''.'') name)) t)"
  by (auto simp: col_def split: list.splits option.splits)

lemma null_values [simp]:
  "split_value ds Null = Null" "item_value i Null = Null" "json_value eng flds Null = Null"
  "divide_value n Null = Null" "cast_value eng target Null = Null"
  "timestamp_value eng Null = Null" "sha2_value Null = Null"
  by (simp_all add: split_value_def item_value_def json_value_def divide_value_def
      cast_value_def timestamp_value_def sha2_value_def)

lemma cval_getItem: "cval (getItem c i) r = item_value i (cval c r)"
  by (simp add: getItem_def cval_def split: sum.splits)

lemma cval_split_col: "bracket_class pat = Some ds \<Longrightarrow> cval (split_col c pat) r = split_value ds (cval c r)"
  by (simp add: split_col_def cval_def split: sum.splits)

lemma cval_cast:
  "target \<in> set [''double'', ''int'', ''timestamp''] \<Longrightarrow>
   cval (cast eng c target) r = cast_value eng target (cval c r)"
  by (simp add: cast_def cval_def split: sum.splits)

lemma cval_divide_by: "cval (divide_by c n) r = divide_value n (cval c r)"
  by (simp add: divide_by_def cval_def split: sum.splits)

lemma cval_from_json:
  "cval (from_json eng name (StructT flds)) r = json_value eng flds (cval (col name) r)"
  by (simp add: from_json_def cval_def split: sum.splits)

lemma cval_to_timestamp: "cval (to_timestamp eng name) r = timestamp_value eng (cval (col name) r)"
  by (simp add: to_timestamp_def cval_def split: sum.splits)

lemma cval_sha2: "cval (sha2 c 256) r = sha2_value (cval c r)"
  by (simp add: sha2_def cval_def split: sum.splits)

lemma ceval_convert_epoch:
  "ceval (convert_epoch_microseconds eng name) r = epoch_value eng (cval (col name) r)"
  by (simp add: convert_epoch_microseconds_def from_utc_timestamp_def cast_def divide_by_def
      ceval_col epoch_value_def)

lemma infallibleD: "infallible c \<Longrightarrow> \<exists>v. ceval c r = Inr v"
  by (simp add: infallible_def)

lemma infallible_col [simp]: "infallible (col name)"
  by (simp add: infallible_def ceval_col)

lemma infallible_getItem [simp]:
  assumes "infallible c"
  shows "infallible (getItem c i)"
  unfolding infallible_def
proof
  fix r
  from assms obtain v where "ceval c r = Inr v" using infallibleD by blast
  then show "\<exists>w. ceval (getItem c i) r = Inr w" by (simp add: getItem_def)
qed

lemma infallible_split_col [simp]:
  assumes "infallible c" and "bracket_class pat = Some ds"
  shows "infallible (split_col c pat)"
  unfolding infallible_def
proof
  fix r
  from assms obtain v where "ceval c r = Inr v" using infallibleD by blast
  with assms(2) show "\<exists>w. ceval (split_col c pat) r = Inr w" by (simp add: split_col_def)
qed

lemma infallible_cast [simp]:
  assumes "infallible c" and "target \<in> set [''double'', ''int'', ''timestamp'']"
  shows "infallible (cast eng c target)"
  unfolding infallible_def
proof
  fix r
  from assms obtain v where "ceval c r = Inr v" using infallibleD by blast
  with assms(2) show "\<exists>w. ceval (cast eng c target) r = Inr w" by (simp add: cast_def)
qed

lemma infallible_from_json [simp]: "infallible (from_json eng name (StructT flds))"
  by (simp add: infallible_def from_json_def ceval_col)

lemma infallible_to_timestamp [simp]: "infallible (to_timestamp eng name)"
  by (simp add: infallible_def to_timestamp_def ceval_col)

lemma infallible_sha2 [simp]:
  assumes "infallible c"
  shows "infallible (sha2 c 256)"
  unfolding infallible_def
proof
  fix r
  from assms obtain v where "ceval c r = Inr v" using infallibleD by blast
  then show "\<exists>w. ceval (sha2 c 256) r = Inr w" by (simp add: sha2_def)
qed

lemma infallible_rows: "infallible c \<Longrightarrow> list_all (\<lambda>r. \<exists>v. ceval c r = Inr v) rs"
  by (simp add: infallible_def list_all_iff)

lemma evaluates_Cons_infallible:
  assumes "infallible c"
  shows "evaluates ((name, c) # cs) r = evaluates cs (with_value name c r)"
proof -
  from assms obtain v where "ceval c r = Inr v" using infallibleD by blast
  then show ?thesis by simp
qed

lemma evaluates_infallible: "list_all (\<lambda>p. infallible (snd p)) cs \<Longrightarrow> evaluates cs r"
  by (induction cs arbitrary: r) (auto simp: evaluates_Cons_infallible simp del: evaluates.simps(2))

lemma lookup_update [simp]:
  "lookup (AList.update k v r) name = (if k = name then v else lookup r name)"
  by (simp add: lookup_def update_conv')

lemma lookup_drop_row [simp]:
  "lookup (drop_row names r) name = (if name \<in> set names then Null else lookup r name)"
  by (induction r) (auto simp: lookup_def drop_row_def)

lemma map_of_drop_row [simp]:
  "map_of (drop_row names r) name = (if name \<in> set names then None else map_of r name)"
  by (induction r) (auto simp: drop_row_def)

lemma keys_drop_row [simp]: "map fst (drop_row names r) = filter (\<lambda>k. k \<notin> set names) (map fst r)"
  by (induction r) (auto simp: drop_row_def)

lemma keys_update:
  "map fst (AList.update k v r) = (if k \<in> set (map fst r) then map fst r else map fst r @ [k])"
  by (simp add: update_keys)

section \<open>The cells, row by row\<close>

lemma map_of_update [simp]:
  "map_of (AList.update k v al) name = (if k = name then Some v else map_of al name)"
  by (simp add: update_conv')

lemma withColumn_infallible:
  assumes "infallible c"
  shows "withColumn name c df =
     (case ctype c (schema df) of
        Inl e \<Rightarrow> Inl e
      | Inr t \<Rightarrow> Inr \<lparr>schema = AList.update name t (schema df),
                       rows = map (with_value name c) (rows df)\<rparr>)"
proof (cases "ctype c (schema df)")
  case (Inl e)
  then show ?thesis by (simp add: withColumn_def)
next
  case (Inr t)
  then show ?thesis
    using withColumn_Inr [of name c df] infallible_rows [OF assms, of "rows df"] by simp
qed

lemma withColumns_infallible:
  assumes "list_all (\<lambda>p. infallible (snd p)) cs"
  shows "withColumns cs df =
     (case type_all cs (schema df) of
        Inl e \<Rightarrow> Inl e
      | Inr sch \<Rightarrow> Inr \<lparr>schema = sch, rows = map (with_values cs) (rows df)\<rparr>)"
  using assms
proof (induction cs arbitrary: df)
  case Nil
  have "map (with_values []) rs = rs" for rs by (induction rs) auto
  then show ?case by (cases df) simp
next
  case (Cons a cs)
  obtain name c where a: "a = (name, c)" by (cases a)
  from Cons.prems have c: "infallible c" and cs: "list_all (\<lambda>p. infallible (snd p)) cs"
    by (simp_all add: a)
  show ?case
    unfolding a
    by (simp add: withColumn_infallible [OF c] Cons.IH [OF cs] then_do_def comp_def
        split: sum.splits)
qed

lemma ctype_from_json:
  "ctype (from_json eng name (StructT flds)) sch =
     (if list_all (\<lambda>p. snd p = StringT) flds
      then (case ctype (col name) sch of
              Inl e \<Rightarrow> Inl e
            | Inr StringT \<Rightarrow> Inr (StructT flds)
            | Inr _ \<Rightarrow> Inl NotModelled)
      else Inl NotModelled)"
  by (simp add: from_json_def)

lemma ctype_personal_detail:
  "ctype (from_json eng ''personal_detail'' personal_schema) sch = Inr t \<longleftrightarrow>
     (map_of sch ''personal_detail'' = Some StringT \<and> t = personal_schema)"
  by (auto simp: personal_schema_def ctype_from_json ctype_col split: option.splits dtype.splits)

lemma ctype_personal_detail_eq:
  "ctype (from_json eng ''personal_detail'' personal_schema) sch =
     (case map_of sch ''personal_detail'' of
        None \<Rightarrow> Inl AnalysisException
      | Some StringT \<Rightarrow> Inr personal_schema
      | Some _ \<Rightarrow> Inl NotModelled)"
  by (simp add: personal_schema_def ctype_from_json ctype_col split: option.splits dtype.splits)

lemma parse_personal_detail_eq:
  "parse_personal_detail eng df =
     (case map_of (schema df) ''personal_detail'' of
        None \<Rightarrow> Inl AnalysisException
      | Some StringT \<Rightarrow>
          Inr \<lparr>schema = drop_row [''personal_detail'']
                          (AList.update ''personal_detail_json'' personal_schema (schema df)),
               rows = map (personal_detail_row eng) (rows df)\<rparr>
      | Some _ \<Rightarrow> Inl NotModelled)"
proof -
  have inf: "infallible (from_json eng ''personal_detail'' personal_schema)"
    by (simp add: personal_schema_def)
  have pr: "personal_detail_row eng = (\<lambda>r. drop_row [''personal_detail'']
       (with_value ''personal_detail_json'' (from_json eng ''personal_detail'' personal_schema) r))"
    by (rule ext) (simp add: personal_detail_row_def)
  show ?thesis
    by (simp add: parse_personal_detail_def then_do_def withColumn_infallible [OF inf]
        ctype_personal_detail_eq drop_cols_def pr comp_def split: option.splits dtype.splits)
qed

lemma parse_personal_detail_Inr:
  "parse_personal_detail eng df = Inr out \<longleftrightarrow>
     (map_of (schema df) ''personal_detail'' = Some StringT \<and>
      out = \<lparr>schema = drop_row [''personal_detail'']
                        (AList.update ''personal_detail_json'' personal_schema (schema df)),
             rows = map (personal_detail_row eng) (rows df)\<rparr>)"
  by (auto simp: parse_personal_detail_eq split: option.splits dtype.splits)

lemma ctype_address_eq:
  "ctype (from_json eng ''personal_detail_json.address'' address_schema) sch =
     (case ctype (col ''personal_detail_json.address'') sch of
        Inl e \<Rightarrow> Inl e
      | Inr StringT \<Rightarrow> Inr address_schema
      | Inr _ \<Rightarrow> Inl NotModelled)"
  by (simp add: address_schema_def ctype_from_json split: sum.splits dtype.splits)

lemma parse_address_eq:
  "parse_address eng df =
     (case ctype (col ''personal_detail_json.address'') (schema df) of
        Inl e \<Rightarrow> Inl e
      | Inr StringT \<Rightarrow>
          Inr \<lparr>schema = AList.update ''address_json'' address_schema (schema df),
               rows = map (address_row eng) (rows df)\<rparr>
      | Inr _ \<Rightarrow> Inl NotModelled)"
proof -
  have inf: "infallible (from_json eng ''personal_detail_json.address'' address_schema)"
    by (simp add: address_schema_def)
  have pr: "address_row eng = with_value ''address_json'' (from_json eng ''personal_detail_json.address'' address_schema)"
    by (rule ext) (simp add: address_row_def)
  show ?thesis
    unfolding parse_address_def withColumn_infallible [OF inf]
    by (simp add: ctype_address_eq pr split: sum.splits dtype.splits)
qed

lemma parse_address_Inr:
  "parse_address eng df = Inr out \<longleftrightarrow>
     (ctype (col ''personal_detail_json.address'') (schema df) = Inr StringT \<and>
      out = \<lparr>schema = AList.update ''address_json'' address_schema (schema df),
             rows = map (address_row eng) (rows df)\<rparr>)"
  by (auto simp: parse_address_eq split: sum.splits dtype.splits)

lemma flatten_infallible: "list_all (\<lambda>p. infallible (snd p)) (flatten_columns eng)"
  by (simp add: flatten_columns_def)

lemma flatten_fields_eq:
  "flatten_fields eng df =
     (case type_all (flatten_columns eng) (schema df) of
        Inl e \<Rightarrow> Inl e
      | Inr sch \<Rightarrow>
          Inr \<lparr>schema = drop_row [''personal_detail_json'', ''address_json''] sch,
               rows = map (flatten_row eng) (rows df)\<rparr>)"
proof -
  have pr: "flatten_row eng = (\<lambda>r. drop_row [''personal_detail_json'', ''address_json''] (with_values (flatten_columns eng) r))"
    by (rule ext) (simp add: flatten_row_def)
  show ?thesis
    by (simp add: flatten_fields_def then_do_def withColumns_infallible [OF flatten_infallible]
        drop_cols_def pr comp_def split: sum.splits)
qed

lemma ctype_getItem:
  "ctype (getItem c i) sch =
     (case ctype c sch of Inl e \<Rightarrow> Inl e | Inr (ArrayT t) \<Rightarrow> Inr t | Inr _ \<Rightarrow> Inl NotModelled)"
  by (simp add: getItem_def)

lemma ctype_split_col:
  "bracket_class pat = Some ds \<Longrightarrow>
   ctype (split_col c pat) sch =
     (case ctype c sch of Inl e \<Rightarrow> Inl e | Inr StringT \<Rightarrow> Inr (ArrayT StringT) | Inr _ \<Rightarrow> Inl NotModelled)"
  by (simp add: split_col_def)

lemma ctype_cast:
  "ctype (cast eng c target) sch =
     (case ctype c sch of
        Inl e \<Rightarrow> Inl e
      | Inr t \<Rightarrow>
          (if t = StringT \<and> target = ''double'' then Inr DoubleT
           else if t = StringT \<and> target = ''int'' then Inr IntegerT
           else if t = DoubleT \<and> target = ''timestamp'' then Inr TimestampT
           else Inl NotModelled))"
  by (simp add: cast_def)

lemma flatten_types:
  assumes "map_of sch ''personal_detail_json'' = Some personal_schema"
    and "map_of sch ''address_json'' = Some address_schema"
  shows "type_all (flatten_columns eng) sch =
     Inr (fold (\<lambda>p. AList.update (fst p) (snd p))
          [(''first'', StringT), (''last'', StringT), (''gender'', StringT), (''dob'', StringT),
           (''street'', StringT), (''city'', StringT), (''state'', StringT), (''zip'', StringT),
           (''lat'', DoubleT), (''long'', DoubleT), (''city_pop'', IntegerT), (''job'', StringT)] sch)"
  using assms
  by (simp add: flatten_columns_def ctype_getItem ctype_split_col ctype_col ctype_cast
      personal_schema_def address_schema_def)

lemma flatten_fields_ok:
  assumes "map_of (schema df) ''personal_detail_json'' = Some personal_schema"
    and "map_of (schema df) ''address_json'' = Some address_schema"
  shows "flatten_fields eng df =
     Inr \<lparr>schema = flatten_schema (schema df), rows = map (flatten_row eng) (rows df)\<rparr>"
  by (simp add: flatten_fields_eq flatten_types [OF assms] flatten_schema_def)

lemma ctype_to_timestamp:
  "ctype (to_timestamp eng name) sch =
     (case ctype (col name) sch of
        Inl e \<Rightarrow> Inl e
      | Inr StringT \<Rightarrow> Inr TimestampT
      | Inr _ \<Rightarrow> Inl NotModelled)"
  by (simp add: to_timestamp_def)

lemma ctype_convert_epoch:
  "ctype (convert_epoch_microseconds eng name) sch =
     (case ctype (col name) sch of
        Inl e \<Rightarrow> Inl e
      | Inr LongT \<Rightarrow> Inr TimestampT
      | Inr _ \<Rightarrow> Inl NotModelled)"
  by (simp add: convert_epoch_microseconds_def from_utc_timestamp_def cast_def divide_by_def
      split: sum.splits dtype.splits)

lemma timestamp_types:
  assumes "map_of sch ''trans_date_trans_time'' = Some StringT"
    and "map_of sch ''merch_last_update_time'' = Some LongT"
    and "map_of sch ''merch_eff_time'' = Some LongT"
  shows "type_all (timestamp_columns eng) sch = Inr (timestamp_schema sch)"
  using assms
  by (simp add: timestamp_columns_def timestamp_schema_def ctype_to_timestamp ctype_convert_epoch
      ctype_col)

lemma evaluates_timestamps: "evaluates (timestamp_columns eng) r = epoch_ok eng r"
proof -
  let ?r1 = "with_value ''trans_date_trans_time'' (to_timestamp eng ''trans_date_trans_time'') r"
  have "evaluates (timestamp_columns eng) r =
      evaluates [(''merch_last_update_time'', convert_epoch_microseconds eng ''merch_last_update_time''),
                 (''merch_eff_time'', convert_epoch_microseconds eng ''merch_eff_time'')] ?r1"
    unfolding timestamp_columns_def by (rule evaluates_Cons_infallible) simp
  also have "\<dots> = epoch_ok eng r"
    by (auto simp: ceval_convert_epoch cval_col epoch_ok_def with_value_def split: sum.splits)
  finally show ?thesis .
qed

lemma normalize_timestamps_Inr:
  "normalize_timestamps eng df = Inr out \<longleftrightarrow>
     (\<exists>sch. type_all (timestamp_columns eng) (schema df) = Inr sch \<and>
            list_all (epoch_ok eng) (rows df) \<and>
            out = \<lparr>schema = sch, rows = map (timestamp_row eng) (rows df)\<rparr>)"
proof -
  have pr: "timestamp_row eng = with_values (timestamp_columns eng)"
    by (rule ext) (simp add: timestamp_row_def)
  have ev: "evaluates (timestamp_columns eng) = epoch_ok eng"
    by (rule ext) (rule evaluates_timestamps)
  show ?thesis
    by (simp add: normalize_timestamps_def withColumns_Inr pr ev)
qed

lemma mask_cc_eq:
  "mask_cc df =
     (case map_of (schema df) ''cc_num'' of
        None \<Rightarrow> Inl AnalysisException
      | Some StringT \<Rightarrow>
          Inr \<lparr>schema = AList.update ''cc_num_masked'' StringT (schema df),
               rows = map mask_row (rows df)\<rparr>
      | Some _ \<Rightarrow> Inl AnalysisException)"
proof -
  have inf: "infallible (sha2 (col ''cc_num'') 256)" by simp
  have pr: "mask_row = with_value ''cc_num_masked'' (sha2 (col ''cc_num'') 256)"
    by (rule ext) (simp add: mask_row_def)
  show ?thesis
    unfolding mask_cc_def withColumn_infallible [OF inf]
    by (simp add: sha2_def ctype_col pr split: option.splits dtype.splits)
qed

lemma mask_cc_Inr:
  "mask_cc df = Inr out \<longleftrightarrow>
     (map_of (schema df) ''cc_num'' = Some StringT \<and>
      out = \<lparr>schema = AList.update ''cc_num_masked'' StringT (schema df),
             rows = map mask_row (rows df)\<rparr>)"
  by (auto simp: mask_cc_eq split: option.splits dtype.splits)

lemma flatten_fields_rows: "flatten_fields eng df = Inr out \<Longrightarrow> rows out = map (flatten_row eng) (rows df)"
  by (auto simp: flatten_fields_eq split: sum.splits)

lemma pipeline_rows:
  assumes "pipeline eng df = Inr out"
  shows "rows out = map (pipeline_row eng) (rows df)"
proof -
  from assms obtain d1 d2 d3 d4 where
    s1: "parse_personal_detail eng df = Inr d1" and
    s2: "parse_address eng d1 = Inr d2" and
    s3: "flatten_fields eng d2 = Inr d3" and
    s4: "normalize_timestamps eng d3 = Inr d4" and
    s5: "mask_cc d4 = Inr out"
    by (auto simp: pipeline_def then_do_def split: sum.splits)
  have "rows d1 = map (personal_detail_row eng) (rows df)"
    using s1 by (auto simp: parse_personal_detail_Inr)
  moreover have "rows d2 = map (address_row eng) (rows d1)"
    using s2 by (auto simp: parse_address_Inr)
  moreover have "rows d3 = map (flatten_row eng) (rows d2)"
    using s3 by (rule flatten_fields_rows)
  moreover have "rows d4 = map (timestamp_row eng) (rows d3)"
    using s4 by (auto simp: normalize_timestamps_Inr)
  moreover have "rows out = map mask_row (rows d4)"
    using s5 by (auto simp: mask_cc_Inr)
  ultimately show ?thesis
    by (simp add: pipeline_row_def comp_def)
qed

lemma lookup_with_value [simp]:
  "lookup (with_value n c r) name = (if n = name then cval c r else lookup r name)"
  by (simp add: with_value_def)

lemma lookup_with_values_other:
  "name \<notin> set (map fst cs) \<Longrightarrow> lookup (with_values cs r) name = lookup r name"
  by (induction cs arbitrary: r) auto

lemma flatten_names:
  "map fst (flatten_columns eng) =
     [''first'', ''last'', ''gender'', ''dob'', ''street'', ''city'', ''state'', ''zip'',
      ''lat'', ''long'', ''city_pop'', ''job'']"
  by (simp add: flatten_columns_def)

lemma lookup_flatten_row:
  "name \<notin> set [''first'', ''last'', ''gender'', ''dob'', ''street'', ''city'', ''state'', ''zip'',
      ''lat'', ''long'', ''city_pop'', ''job'', ''personal_detail_json'', ''address_json''] \<Longrightarrow>
   lookup (flatten_row eng r) name = lookup r name"
  by (simp add: flatten_row_def lookup_with_values_other flatten_names)

lemma epoch_ok_stages:
  "epoch_ok eng (flatten_row eng (address_row eng (personal_detail_row eng r))) = epoch_ok eng r"
  by (simp add: epoch_ok_def lookup_flatten_row address_row_def personal_detail_row_def)

lemma map_of_fold_update:
  "map_of (fold (\<lambda>p. AList.update (fst p) (snd p)) ps sch) name =
     (case map_of (rev ps) name of None \<Rightarrow> map_of sch name | Some t \<Rightarrow> Some t)"
  by (induction ps arbitrary: sch) (auto split: option.splits)

lemma pipeline_ok:
  assumes "raw_ok (schema df)" and "list_all (epoch_ok eng) (rows df)"
  shows "pipeline eng df =
     Inr \<lparr>schema = final_schema (schema df), rows = map (pipeline_row eng) (rows df)\<rparr>"
proof -
  let ?s1 = "drop_row [''personal_detail''] (AList.update ''personal_detail_json'' personal_schema (schema df))"
  let ?d1 = "\<lparr>schema = ?s1, rows = map (personal_detail_row eng) (rows df)\<rparr>"
  let ?s2 = "AList.update ''address_json'' address_schema ?s1"
  let ?d2 = "\<lparr>schema = ?s2, rows = map (address_row eng) (rows ?d1)\<rparr>"
  let ?d3 = "\<lparr>schema = flatten_schema ?s2, rows = map (flatten_row eng) (rows ?d2)\<rparr>"
  let ?d4 = "\<lparr>schema = timestamp_schema (flatten_schema ?s2), rows = map (timestamp_row eng) (rows ?d3)\<rparr>"
  from assms(1) have s1: "parse_personal_detail eng df = Inr ?d1"
    by (simp add: parse_personal_detail_Inr raw_ok_def)
  have s2: "parse_address eng ?d1 = Inr ?d2"
    by (simp add: parse_address_Inr ctype_col personal_schema_def)
  have s3: "flatten_fields eng ?d2 = Inr ?d3"
    by (simp add: flatten_fields_ok)
  have t: "type_all (timestamp_columns eng) (flatten_schema ?s2) = Inr (timestamp_schema (flatten_schema ?s2))"
    using assms(1)
    by (intro timestamp_types) (simp_all add: raw_ok_def flatten_schema_def map_of_fold_update)
  have e: "list_all (epoch_ok eng) (rows ?d3)"
    using assms(2) by (simp add: list_all_iff epoch_ok_stages)
  have s4: "normalize_timestamps eng ?d3 = Inr ?d4"
    using t e by (simp add: normalize_timestamps_Inr)
  have c: "map_of (schema ?d4) ''cc_num'' = Some StringT"
    using assms(1)
    by (simp add: raw_ok_def flatten_schema_def timestamp_schema_def map_of_fold_update)
  have s5: "mask_cc ?d4 = Inr \<lparr>schema = final_schema (schema df), rows = map (pipeline_row eng) (rows df)\<rparr>"
    using c by (simp add: mask_cc_Inr final_schema_def pipeline_row_def comp_def)
  show ?thesis
    by (simp only: pipeline_def then_do_def s1 s2 s3 s4 s5 sum.case)
qed

section \<open>The claims of the specification\<close>

subsection \<open>Splitting the name\<close>

lemma lookup_flatten_first:
  "lookup (flatten_row eng r) ''first'' =
     item_value 0 (split_value '',@/'' (get_path [''person_name''] (lookup r ''personal_detail_json'')))"
  by (simp add: flatten_row_def flatten_columns_def cval_getItem cval_split_col cval_col)

lemma lookup_flatten_last:
  "lookup (flatten_row eng r) ''last'' =
     item_value 1 (split_value '',@/'' (get_path [''person_name''] (lookup r ''personal_detail_json'')))"
  by (simp add: flatten_row_def flatten_columns_def cval_getItem cval_split_col cval_col)

lemma split_on_unfold:
  "split_on p s =
     takeWhile (\<lambda>c. \<not> p c) s #
       (case dropWhile (\<lambda>c. \<not> p c) s of [] \<Rightarrow> [] | d # r \<Rightarrow> split_on p r)"
  by (induction s) (auto split: list.splits)

lemma split_on_length: "length (split_on p s) = length (filter p s) + 1"
  by (induction s) (auto split: list.splits)

lemma split_on_pieces: "list_all (list_all (\<lambda>c. \<not> p c)) (split_on p s)"
  by (induction s) (auto split: list.splits)

lemma split_on_interleave: "interleave (split_on p s) (filter p s) = s"
proof (induction s)
  case Nil
  show ?case by simp
next
  case (Cons c s)
  obtain w ws where w: "split_on p s = w # ws"
    by (cases "split_on p s") simp_all
  show ?case
  proof (cases "p c")
    case True
    with Cons w show ?thesis by simp
  next
    case False
    from Cons w have "interleave (w # ws) (filter p s) = s" by simp
    then have "interleave ((c # w) # ws) (filter p s) = c # s"
      by (cases ws; cases "filter p s") simp_all
    with False w show ?thesis by simp
  qed
qed

lemma delimiter_class:
  "(\<lambda>ch. ch \<in> set '',@/'') = delimiter"
  "(\<lambda>ch. ch = CHR '','' \<or> ch = CHR ''@'' \<or> ch = CHR ''/'') = delimiter"
  by (rule ext, auto simp: delimiter_def)+

text \<open>
  C3. The flattener succeeds on every frame that carries the two nested columns with their
  schemas, and keeps the row count. In every row whose \<^verbatim>\<open>person_name\<close> is a string,
  \<^verbatim>\<open>first\<close> and \<^verbatim>\<open>last\<close> are the pieces at index 0 and 1 of the split of the name on
  the class of \<^verbatim>\<open>,\<close>, \<^verbatim>\<open>@\<close> and \<^verbatim>\<open>/\<close>, and a missing index 1 gives null. The split is
  fixed without reference to the splitting function of the model: there is one piece more
  than there are delimiters in the name, no piece holds a delimiter, and the pieces put
  together with the delimiters of the name give the name back. So \<^verbatim>\<open>first\<close> is the text
  before the first delimiter, \<^verbatim>\<open>last\<close> is the text between the first and the second
  delimiter (up to the end if there is no second one), \<^verbatim>\<open>last\<close> is null exactly if the name
  holds no delimiter, and \<^verbatim>\<open>Doe,John\<close> gives \<^verbatim>\<open>Doe\<close> and \<^verbatim>\<open>John\<close>. A null name gives
  null for both.
\<close>

theorem flatten_first_last:
  assumes "map_of (schema df) ''personal_detail_json'' = Some personal_schema"
    and "map_of (schema df) ''address_json'' = Some address_schema"
    and "i < length (rows df)"
  shows "\<exists>out. flatten_fields eng df = Inr out \<and> length (rows out) = length (rows df) \<and>
      (\<forall>name. get_path [''person_name''] (lookup (rows df ! i) ''personal_detail_json'') = Str name \<longrightarrow>
         (\<exists>parts. length parts = length (filter delimiter name) + 1 \<and>
                  list_all (list_all (\<lambda>c. \<not> delimiter c)) parts \<and>
                  interleave parts (filter delimiter name) = name \<and>
                  lookup (rows out ! i) ''first'' = Str (parts ! 0) \<and>
                  lookup (rows out ! i) ''last'' =
                    (if 1 < length parts then Str (parts ! 1) else Null)) \<and>
         lookup (rows out ! i) ''first'' = Str (takeWhile (\<lambda>c. \<not> delimiter c) name) \<and>
         lookup (rows out ! i) ''last'' =
           (if list_all (\<lambda>c. \<not> delimiter c) name then Null
            else Str (takeWhile (\<lambda>c. \<not> delimiter c) (tl (dropWhile (\<lambda>c. \<not> delimiter c) name)))) \<and>
         (name = ''Doe,John'' \<longrightarrow>
            lookup (rows out ! i) ''first'' = Str ''Doe'' \<and> lookup (rows out ! i) ''last'' = Str ''John'')) \<and>
      (get_path [''person_name''] (lookup (rows df ! i) ''personal_detail_json'') = Null \<longrightarrow>
         lookup (rows out ! i) ''first'' = Null \<and> lookup (rows out ! i) ''last'' = Null)"
proof -
  let ?out = "\<lparr>schema = flatten_schema (schema df), rows = map (flatten_row eng) (rows df)\<rparr>"
  let ?nd = "\<lambda>c. \<not> delimiter c"
  have ok: "flatten_fields eng df = Inr ?out"
    using assms(1,2) by (rule flatten_fields_ok)
  have str: "(\<exists>parts. length parts = length (filter delimiter name) + 1 \<and>
                  list_all (list_all ?nd) parts \<and>
                  interleave parts (filter delimiter name) = name \<and>
                  lookup (rows ?out ! i) ''first'' = Str (parts ! 0) \<and>
                  lookup (rows ?out ! i) ''last'' =
                    (if 1 < length parts then Str (parts ! 1) else Null)) \<and>
         lookup (rows ?out ! i) ''first'' = Str (takeWhile ?nd name) \<and>
         lookup (rows ?out ! i) ''last'' =
           (if list_all ?nd name then Null
            else Str (takeWhile ?nd (tl (dropWhile ?nd name)))) \<and>
         (name = ''Doe,John'' \<longrightarrow>
            lookup (rows ?out ! i) ''first'' = Str ''Doe'' \<and> lookup (rows ?out ! i) ''last'' = Str ''John'')"
    if pn: "get_path [''person_name''] (lookup (rows df ! i) ''personal_detail_json'') = Str name"
    for name
  proof -
    let ?parts = "split_on delimiter name"
    have len: "length ?parts = length (filter delimiter name) + 1"
      by (rule split_on_length)
    have first: "lookup (rows ?out ! i) ''first'' = Str (?parts ! 0)"
      using assms(3) pn len
      by (simp add: lookup_flatten_first split_value_def item_value_def delimiter_class)
    have last: "lookup (rows ?out ! i) ''last'' = (if 1 < length ?parts then Str (?parts ! 1) else Null)"
      using assms(3) pn
      by (simp add: lookup_flatten_last split_value_def item_value_def delimiter_class)
    have a: "\<exists>parts. length parts = length (filter delimiter name) + 1 \<and>
                  list_all (list_all ?nd) parts \<and>
                  interleave parts (filter delimiter name) = name \<and>
                  lookup (rows ?out ! i) ''first'' = Str (parts ! 0) \<and>
                  lookup (rows ?out ! i) ''last'' =
                    (if 1 < length parts then Str (parts ! 1) else Null)"
      using len split_on_pieces [of delimiter name] split_on_interleave [of delimiter name] first last
      by (intro exI [of _ ?parts]) simp
    have h0: "?parts ! 0 = takeWhile ?nd name"
      by (subst split_on_unfold) simp
    have b: "lookup (rows ?out ! i) ''first'' = Str (takeWhile ?nd name)"
      using first h0 by simp
    have c: "lookup (rows ?out ! i) ''last'' =
           (if list_all ?nd name then Null
            else Str (takeWhile ?nd (tl (dropWhile ?nd name))))"
    proof (cases "dropWhile ?nd name")
      case Nil
      then have all: "list_all ?nd name"
        by (simp add: list_all_iff dropWhile_eq_Nil_conv)
      have "?parts = [takeWhile ?nd name]"
        by (subst split_on_unfold) (simp add: Nil)
      with last all show ?thesis by simp
    next
      case (Cons d r)
      have nall: "\<not> list_all ?nd name"
      proof
        assume "list_all ?nd name"
        then have "dropWhile ?nd name = []"
          by (simp add: list_all_iff dropWhile_eq_Nil_conv)
        with Cons show False by simp
      qed
      have "?parts = takeWhile ?nd name # split_on delimiter r"
        by (subst split_on_unfold) (simp add: Cons)
      moreover have "split_on delimiter r ! 0 = takeWhile ?nd r"
        by (subst split_on_unfold) simp
      moreover have "0 < length (split_on delimiter r)"
        by (simp add: split_on_length)
      ultimately show ?thesis using last nall Cons by simp
    qed
    have d: "name = ''Doe,John'' \<longrightarrow>
            lookup (rows ?out ! i) ''first'' = Str ''Doe'' \<and> lookup (rows ?out ! i) ''last'' = Str ''John''"
      unfolding b c by (simp add: delimiter_def)
    from a b c d show ?thesis by blast
  qed
  have null: "lookup (rows ?out ! i) ''first'' = Null \<and> lookup (rows ?out ! i) ''last'' = Null"
    if "get_path [''person_name''] (lookup (rows df ! i) ''personal_detail_json'') = Null"
    using assms(3) that by (simp add: lookup_flatten_first lookup_flatten_last)
  show ?thesis
    apply (intro exI [of _ ?out] conjI ok)
      apply simp
    using str apply blast
    using null apply blast
    done
qed

text \<open>The theorem at a frame whose names have one, two and four pieces, an empty second piece, and a null.\<close>

theorem flatten_first_last_witness:
  "\<exists>out. flatten_fields example_engine names_frame = Inr out \<and> length (rows out) = 5 \<and>
     map (\<lambda>i. (lookup (rows out ! i) ''first'', lookup (rows out ! i) ''last'')) [0, 1, 2, 3, 4] =
       [(Str ''Doe'', Str ''John''), (Str ''OnlyOneName'', Null), (Str ''Lee'', Str ''Ann''),
        (Str ''Doe'', Str []), (Null, Null)]"
proof -
  have s1: "map_of (schema names_frame) ''personal_detail_json'' = Some personal_schema"
    and s2: "map_of (schema names_frame) ''address_json'' = Some address_schema"
    by (simp_all add: names_frame_def)
  have len: "length (rows names_frame) = 5"
    by (simp add: names_frame_def)
  have pn: "map (\<lambda>i. get_path [''person_name''] (lookup (rows names_frame ! i) ''personal_detail_json''))
              [0, 1, 2, 3, 4] =
            [Str ''Doe,John'', Str ''OnlyOneName'', Str ''Lee@Ann/Kim,Jr'', Str ''Doe/'', Null]"
    by (simp add: names_frame_def lookup_def)
  note inst = flatten_first_last [OF s1 s2, of _ example_engine, unfolded len]
  from inst [of 0] obtain out where out: "flatten_fields example_engine names_frame = Inr out"
    and n: "length (rows out) = 5"
    by auto
  have r0: "lookup (rows out ! 0) ''first'' = Str ''Doe'' \<and> lookup (rows out ! 0) ''last'' = Str ''John''"
    using inst [of 0] out pn by (auto simp: delimiter_def)
  have r1: "lookup (rows out ! 1) ''first'' = Str ''OnlyOneName'' \<and> lookup (rows out ! 1) ''last'' = Null"
    using inst [of 1] out pn by (auto simp: delimiter_def)
  have r2: "lookup (rows out ! 2) ''first'' = Str ''Lee'' \<and> lookup (rows out ! 2) ''last'' = Str ''Ann''"
    using inst [of 2] out pn by (auto simp: delimiter_def)
  have r3: "lookup (rows out ! 3) ''first'' = Str ''Doe'' \<and> lookup (rows out ! 3) ''last'' = Str []"
    using inst [of 3] out pn by (auto simp: delimiter_def)
  have r4: "lookup (rows out ! 4) ''first'' = Null \<and> lookup (rows out ! 4) ''last'' = Null"
    using inst [of 4] out pn by auto
  from out n r0 r1 r2 r3 r4 show ?thesis by simp
qed

end
